theory Spec2Isabelle
  imports Main
begin

section \<open>The build/run task provider of the BeeWare extension\<close>

text \<open>
  This theory embeds \<^verbatim>\<open>src/tasks/taskProvider.ts\<close> (class \<^verbatim>\<open>BulidRunTaskProvider\<close>).
  The class is glue between injected collaborators: a logger, an output channel, a
  workspace service, a configuration service, a module installer, a process factory and
  the application shell. The embedding makes two things explicit.

  \<^item> What the collaborators answer is a parameter, the record \<open>Host\<close>. Each field is
    the answer of one collaborator method, as a function of the arguments the code
    passes. The collaborators are taken to answer (none of them throws), and the shell
    is taken to run the task given to \<^verbatim>\<open>withProgress\<close> once, as the editor does.
  \<^item> What the code does to the collaborators is a trace, a list of \<open>Event\<close>s in the
    order the code performs them. The code is sequential between its \<^verbatim>\<open>await\<close>s,
    and a stream delivers its items one after another and ends at most once, so the
    order of the trace is the order of the statements followed by the order of the
    stream.
\<close>

subsection \<open>Data\<close>

type_synonym Target = string

text \<open>The string literal type \<^verbatim>\<open>'build' | 'run'\<close> of the parameter \<^verbatim>\<open>buildOrRun\<close>.\<close>

datatype BuildOrRun = Build | Run

fun modeString :: "BuildOrRun \<Rightarrow> string" where
  "modeString Build = ''build''"
| "modeString Run = ''run''"

text \<open>
  A string used as a condition (\<^verbatim>\<open>buildOrRun ? a : b\<close>) counts as true exactly when it
  is not the empty string.
\<close>

definition truthy :: "string \<Rightarrow> bool" where
  "truthy s = (s \<noteq> [])"

text \<open>The character \<^verbatim>\<open>'\<close> of the template strings.\<close>

definition quote :: string where
  "quote = [CHR 0x27]"

record Uri =
  fsPath :: string

record WorkspaceFolder =
  uri :: Uri

record Settings =
  pythonPath :: string
  beewarePath :: string

text \<open>The value returned by \<^verbatim>\<open>BeeWareExecutionHelper.buildExecutionArgs\<close>.\<close>

record ExecutionInfo =
  command :: string
  args :: "string list"

text \<open>One item of the output stream: \<^verbatim>\<open>item.source\<close> and \<^verbatim>\<open>item.out\<close>.\<close>

record Output =
  source :: string
  out :: string

text \<open>The value a stream hands to the error callback.\<close>

datatype ProcError = ProcError string

text \<open>
  A stream as the subscriber sees it: the items it delivers, in order, and then how it
  ends: with the completion notification, with an error notification, or not at all.
\<close>

datatype Termination = Completed | Errored ProcError | StillOpen

record Observable =
  items :: "Output list"
  ending :: Termination

datatype ProgressLocation = SourceControl | Window | Notification

record ProgressOptions =
  location :: ProgressLocation
  title :: string
  cancellable :: bool

datatype PromiseState = Pending | Resolved | Rejected ProcError

subsection \<open>Collaborators\<close>

text \<open>
  The answers of the collaborators. \<open>buildExecutionArgs\<close> (of \<^verbatim>\<open>./helper\<close>),
  \<open>ApplicationName\<close> (of \<^verbatim>\<open>../common/constants\<close>) and \<open>EOL\<close> (of the platform) are
  not part of the file and are parameters as well. \<open>execObservable\<close> gives the stream
  \<^verbatim>\<open>output.out\<close> for a command, an argument list and a working directory; the
  cancellation token is left to the process layer.
\<close>

record Host =
  selectWorkspaceFolder :: "WorkspaceFolder option"
  isInstalled :: "string \<Rightarrow> Uri \<Rightarrow> bool"
  showInformationMessage :: "string \<Rightarrow> string list \<Rightarrow> string option"
  install :: "string \<Rightarrow> Uri \<Rightarrow> bool"
  getSettings :: "Uri \<Rightarrow> Settings"
  buildExecutionArgs :: "string \<Rightarrow> string \<Rightarrow> ExecutionInfo"
  execObservable :: "string \<Rightarrow> string list \<Rightarrow> string \<Rightarrow> Observable"
  ApplicationName :: string
  EOL :: string

text \<open>The calls the code makes, one constructor for each collaborator method.\<close>

datatype Event =
    Logger_info string
  | Logger_error string "ProcError option"
  | Workspace_selectWorkspaceFolder
  | Installer_isInstalled string Uri
  | Shell_showInformationMessage string "string list"
  | Installer_install string Uri
  | Factory_create Uri
  | Config_getSettings Uri
  | Channel_show
  | Shell_withProgress ProgressOptions
  | Exec_execObservable string "string list" string
  | Channel_append string

subsection \<open>checkAndInstallModule\<close>

text \<open>
  \<^verbatim>\<open>showInformationMessage\<close> answers with the button the user chose, or with nothing
  when the message is dismissed; \<^verbatim>\<open>result !== 'Install'\<close> holds in both cases but
  \<open>Some ''Install''\<close>.
\<close>

definition installPrompt :: "string \<Rightarrow> string" where
  "installPrompt moduleName =
    ''Module '' @ quote @ moduleName @ quote @ '' not installed, would you like to install it?''"

text \<open>Lines 86 to 91: the call of \<^verbatim>\<open>install\<close> and what follows it, after the trace \<open>t\<close>.\<close>

definition installAndReport :: "Host \<Rightarrow> string \<Rightarrow> Uri \<Rightarrow> Event list \<Rightarrow> Event list \<times> bool" where
  "installAndReport h moduleName workspaceFolder t =
    (if \<not> install h moduleName workspaceFolder
     then (t @ [Installer_install moduleName workspaceFolder], False)
     else (t @ [Installer_install moduleName workspaceFolder,
                Logger_info (''Module '' @ quote @ moduleName @ quote @ '' is installed.'')],
           True))"

definition checkAndInstallModule :: "Host \<Rightarrow> string \<Rightarrow> Uri \<Rightarrow> Event list \<times> bool" where
  "checkAndInstallModule h moduleName workspaceFolder =
    (let t1 = [Logger_info (''Checking if module '' @ quote @ moduleName @ quote @ '' is installed.''),
               Installer_isInstalled moduleName workspaceFolder];
         cookieCutterIsInstalled = isInstalled h moduleName workspaceFolder
     in if \<not> cookieCutterIsInstalled
        then
          (let t2 = t1 @ [Shell_showInformationMessage (installPrompt moduleName) [''Install'', ''Cancel'']];
               result = showInformationMessage h (installPrompt moduleName) [''Install'', ''Cancel'']
           in if result \<noteq> Some ''Install''
              then (t2, False)
              else installAndReport h moduleName workspaceFolder t2)
        else installAndReport h moduleName workspaceFolder t1)"

subsection \<open>The subscription\<close>

text \<open>The three callbacks given to \<^verbatim>\<open>output.out.subscribe\<close>.\<close>

definition onNext :: "Output \<Rightarrow> Event list" where
  "onNext item =
    (if source item = ''stderr'' then [Logger_error (out item) None]
     else [Logger_info (out item)])
    @ [Channel_append (out item)]"

definition onError :: "BuildOrRun \<Rightarrow> ProcError \<Rightarrow> Event list \<times> PromiseState" where
  "onError buildOrRun error =
    ([Logger_error ((if truthy (modeString buildOrRun) then ''Build'' else ''Run'') @ '' failed'')
        (Some error)],
     Rejected error)"

definition onCompleted :: "Event list \<times> PromiseState" where
  "onCompleted = ([], Resolved)"

text \<open>
  Subscribing runs the first callback on every item in order, and then the callback of
  the way the stream ends. A stream that does not end leaves the promise pending.
\<close>

definition subscribe ::
  "Observable \<Rightarrow> (Output \<Rightarrow> Event list) \<Rightarrow> (ProcError \<Rightarrow> Event list \<times> PromiseState)
     \<Rightarrow> Event list \<times> PromiseState \<Rightarrow> Event list \<times> PromiseState" where
  "subscribe obs next err complete =
    (case ending obs of
       Completed \<Rightarrow> (concat (map next (items obs)) @ fst complete, snd complete)
     | Errored e \<Rightarrow> (concat (map next (items obs)) @ fst (err e), snd (err e))
     | StillOpen \<Rightarrow> (concat (map next (items obs)), Pending))"

subsection \<open>buildHandler, build and run\<close>

text \<open>
  The result of one call of \<^verbatim>\<open>buildHandler\<close>: the trace, the state of the promise the
  \<^verbatim>\<open>async\<close> method returns, and the state of the promise created in the task given to
  \<^verbatim>\<open>withProgress\<close> (\<open>None\<close> when the method returns before it gets there). The value
  of \<^verbatim>\<open>withProgress\<close> is neither awaited nor returned, so the method's own promise
  resolves whatever becomes of the other one.
\<close>

record HandlerResult =
  trace :: "Event list"
  returned :: PromiseState
  completion :: "PromiseState option"

definition buildHandler :: "Host \<Rightarrow> BuildOrRun \<Rightarrow> Target \<Rightarrow> HandlerResult" where
  "buildHandler h buildOrRun target =
    (let t1 = [Logger_info (EOL h),
               Logger_info ((if truthy (modeString buildOrRun) then ''Build'' else ''Run'')
                              @ '' '' @ quote @ target @ quote),
               Workspace_selectWorkspaceFolder]
     in case selectWorkspaceFolder h of
          None \<Rightarrow> \<lparr>trace = t1, returned = Resolved, completion = None\<rparr>
        | Some workspaceFolder \<Rightarrow>
           (let checked = checkAndInstallModule h ''beeware'' (uri workspaceFolder)
            in if \<not> snd checked
               then \<lparr>trace = t1 @ fst checked, returned = Resolved, completion = None\<rparr>
               else
                (let pythonPath' = pythonPath (getSettings h (uri workspaceFolder));
                     beewarePath' = beewarePath (getSettings h (uri workspaceFolder));
                     executionInfo = buildExecutionArgs h pythonPath' beewarePath';
                     title' = (if truthy (modeString buildOrRun) then ''Building'' else ''Running'')
                                @ '' '' @ ApplicationName h @ '' on '' @ target;
                     options = \<lparr>location = Notification, title = title', cancellable = True\<rparr>;
                     t2 = [Factory_create (uri workspaceFolder),
                           Config_getSettings (uri workspaceFolder),
                           Config_getSettings (uri workspaceFolder),
                           Channel_show,
                           Shell_withProgress options];
                     cmd = (if modeString buildOrRun = ''build'' then ''build'' else ''run'');
                     args' = args executionInfo @ [cmd, target];
                     cwd = fsPath (uri workspaceFolder);
                     output = execObservable h (command executionInfo) args' cwd;
                     subscribed = subscribe output onNext (onError buildOrRun) onCompleted
                 in \<lparr>trace = t1 @ fst checked @ t2
                              @ [Exec_execObservable (command executionInfo) args' cwd]
                              @ fst subscribed,
                     returned = Resolved,
                     completion = Some (snd subscribed)\<rparr>)))"

text \<open>
  The public methods call \<^verbatim>\<open>buildHandler\<close> and drop the promise it returns: the call is
  neither awaited nor returned, so the promise of \<^verbatim>\<open>build\<close> and of \<^verbatim>\<open>run\<close> resolves
  when the body is left, and the handler's effects happen all the same.
\<close>

record TaskResult =
  effects :: "Event list"
  promise :: PromiseState

definition build :: "Host \<Rightarrow> Target \<Rightarrow> TaskResult" where
  "build h target =
    (let dropped = buildHandler h Build target
     in \<lparr>effects = trace dropped, promise = Resolved\<rparr>)"

definition run :: "Host \<Rightarrow> Target \<Rightarrow> TaskResult" where
  "run h target =
    (let dropped = buildHandler h Run target
     in \<lparr>effects = trace dropped, promise = Resolved\<rparr>)"

subsection \<open>Reading a trace\<close>

text \<open>The subprocess invocations of a trace, in order.\<close>

fun subprocessCalls :: "Event list \<Rightarrow> (string \<times> string list \<times> string) list" where
  "subprocessCalls [] = []"
| "subprocessCalls (Exec_execObservable c a d # es) = (c, a, d) # subprocessCalls es"
| "subprocessCalls (_ # es) = subprocessCalls es"

text \<open>The calls of the installer's \<^verbatim>\<open>install\<close>, in order.\<close>

fun installCalls :: "Event list \<Rightarrow> (string \<times> Uri) list" where
  "installCalls [] = []"
| "installCalls (Installer_install m u # es) = (m, u) # installCalls es"
| "installCalls (_ # es) = installCalls es"

text \<open>The entries of the log sink, at either severity, and the texts of those entries.\<close>

fun isLogger :: "Event \<Rightarrow> bool" where
  "isLogger (Logger_info _) = True"
| "isLogger (Logger_error _ _) = True"
| "isLogger _ = False"

definition loggerEvents :: "Event list \<Rightarrow> Event list" where
  "loggerEvents es = filter isLogger es"

fun logSink :: "Event list \<Rightarrow> string list" where
  "logSink [] = []"
| "logSink (Logger_info s # es) = s # logSink es"
| "logSink (Logger_error s _ # es) = s # logSink es"
| "logSink (_ # es) = logSink es"

text \<open>The entries of error severity.\<close>

fun errorEntries :: "Event list \<Rightarrow> (string \<times> ProcError option) list" where
  "errorEntries [] = []"
| "errorEntries (Logger_error s e # es) = (s, e) # errorEntries es"
| "errorEntries (_ # es) = errorEntries es"

text \<open>The texts appended to the output channel, in order.\<close>

fun displayed :: "Event list \<Rightarrow> string list" where
  "displayed [] = []"
| "displayed (Channel_append s # es) = s # displayed es"
| "displayed (_ # es) = displayed es"

text \<open>The part of a trace after the first subprocess invocation: what the subscription did.\<close>

fun afterExec :: "Event list \<Rightarrow> Event list" where
  "afterExec [] = []"
| "afterExec (Exec_execObservable c a d # es) = es"
| "afterExec (_ # es) = afterExec es"

subsection \<open>Sample collaborators\<close>

text \<open>
  A host for concrete runs: one workspace folder, a module installer that reports
  \<open>installed\<close> and whose \<^verbatim>\<open>install\<close> answers \<open>installOk\<close>, a user who answers the
  prompt with \<open>answer\<close>, and a process layer whose stream is \<open>obs\<close>.
\<close>

definition sampleFolder :: WorkspaceFolder where
  "sampleFolder = \<lparr>uri = \<lparr>fsPath = ''/work/app''\<rparr>\<rparr>"

definition sampleHost :: "bool \<Rightarrow> string option \<Rightarrow> bool \<Rightarrow> Observable \<Rightarrow> Host" where
  "sampleHost installed answer installOk obs =
    \<lparr>selectWorkspaceFolder = Some sampleFolder,
     isInstalled = (\<lambda>m u. installed),
     showInformationMessage = (\<lambda>msg buttons. answer),
     install = (\<lambda>m u. installOk),
     getSettings = (\<lambda>u. \<lparr>pythonPath = ''python3'', beewarePath = ''briefcase''\<rparr>),
     buildExecutionArgs = (\<lambda>py bw. \<lparr>command = py, args = [''-m'', bw]\<rparr>),
     execObservable = (\<lambda>c a d. obs),
     ApplicationName = ''BeeWare'',
     EOL = [CHR 0x0A]\<rparr>"

definition noFolderHost :: Host where
  "noFolderHost = (sampleHost True None True \<lparr>items = [], ending = Completed\<rparr>)
                    \<lparr>selectWorkspaceFolder := None\<rparr>"

definition sampleLines :: "Output list" where
  "sampleLines = [\<lparr>source = ''stdout'', out = ''compiling''\<rparr>,
                  \<lparr>source = ''stderr'', out = ''warning: x''\<rparr>,
                  \<lparr>source = ''stdout'', out = ''done''\<rparr>]"

definition goodRun :: Observable where
  "goodRun = \<lparr>items = sampleLines, ending = Completed\<rparr>"

definition failedRun :: Observable where
  "failedRun = \<lparr>items = sampleLines, ending = Errored (ProcError ''exit code 1'')\<rparr>"


section \<open>Properties\<close>

subsection \<open>Traces\<close>

lemmas sample_defs =
  buildHandler_def checkAndInstallModule_def installAndReport_def installPrompt_def
  subscribe_def onNext_def onError_def onCompleted_def truthy_def quote_def Let_def
  sampleHost_def sampleFolder_def noFolderHost_def sampleLines_def goodRun_def failedRun_def
  build_def run_def

lemma subprocessCalls_append:
  "subprocessCalls (xs @ ys) = subprocessCalls xs @ subprocessCalls ys"
  by (induction xs rule: subprocessCalls.induct) simp_all

lemma installCalls_append:
  "installCalls (xs @ ys) = installCalls xs @ installCalls ys"
  by (induction xs rule: installCalls.induct) simp_all

lemma logSink_append: "logSink (xs @ ys) = logSink xs @ logSink ys"
  by (induction xs rule: logSink.induct) simp_all

lemma errorEntries_append: "errorEntries (xs @ ys) = errorEntries xs @ errorEntries ys"
  by (induction xs rule: errorEntries.induct) simp_all

lemma displayed_append: "displayed (xs @ ys) = displayed xs @ displayed ys"
  by (induction xs rule: displayed.induct) simp_all

lemma afterExec_append:
  "subprocessCalls xs = [] \<Longrightarrow> afterExec (xs @ ys) = afterExec ys"
  by (induction xs rule: subprocessCalls.induct) simp_all

lemma subprocessCalls_mem:
  "Exec_execObservable c a d \<in> set es \<longleftrightarrow> (c, a, d) \<in> set (subprocessCalls es)"
  by (induction es rule: subprocessCalls.induct) auto

lemma subprocessCalls_installAndReport:
  "subprocessCalls (fst (installAndReport h n u t)) = subprocessCalls t"
  by (simp add: installAndReport_def subprocessCalls_append)

lemma subprocessCalls_check:
  "subprocessCalls (fst (checkAndInstallModule h n u)) = []"
  by (simp add: checkAndInstallModule_def Let_def subprocessCalls_installAndReport)

lemma subprocessCalls_lines: "subprocessCalls (concat (map onNext xs)) = []"
  by (induction xs) (simp_all add: onNext_def subprocessCalls_append)

lemma subprocessCalls_subscribe:
  "subprocessCalls (fst (subscribe obs onNext (onError m) onCompleted)) = []"
  by (cases "ending obs")
     (simp_all add: subscribe_def onError_def onCompleted_def subprocessCalls_append subprocessCalls_lines)

text \<open>The three ways through buildHandler.\<close>

lemma buildHandler_no_folder:
  "selectWorkspaceFolder h = None \<Longrightarrow>
   buildHandler h m t =
     \<lparr>trace = [Logger_info (EOL h),
               Logger_info ((if truthy (modeString m) then ''Build'' else ''Run'') @ '' '' @ quote @ t @ quote),
               Workspace_selectWorkspaceFolder],
      returned = Resolved, completion = None\<rparr>"
  by (simp add: buildHandler_def)

lemma buildHandler_not_checked:
  "selectWorkspaceFolder h = Some folder \<Longrightarrow> \<not> snd (checkAndInstallModule h ''beeware'' (uri folder)) \<Longrightarrow>
   buildHandler h m t =
     \<lparr>trace = [Logger_info (EOL h),
               Logger_info ((if truthy (modeString m) then ''Build'' else ''Run'') @ '' '' @ quote @ t @ quote),
               Workspace_selectWorkspaceFolder] @ fst (checkAndInstallModule h ''beeware'' (uri folder)),
      returned = Resolved, completion = None\<rparr>"
  by (simp add: buildHandler_def)

lemma cmd_modeString: "(if modeString m = ''build'' then ''build'' else ''run'') = modeString m"
  by (cases m) simp_all

lemma modeString_truthy: "truthy (modeString m)"
  by (cases m) (simp_all add: truthy_def)

lemma buildHandler_checked:
  assumes "selectWorkspaceFolder h = Some folder"
    and "snd (checkAndInstallModule h ''beeware'' (uri folder))"
    and "info = buildExecutionArgs h (pythonPath (getSettings h (uri folder)))
                  (beewarePath (getSettings h (uri folder)))"
    and "c = command info" and "a = args info @ [modeString m, t]" and "d = fsPath (uri folder)"
  shows "\<exists>pre. subprocessCalls pre = [] \<and> Config_getSettings (uri folder) \<in> set pre \<and>
           installCalls pre = installCalls (fst (checkAndInstallModule h ''beeware'' (uri folder))) \<and>
           trace (buildHandler h m t) =
             pre @ Exec_execObservable c a d
                 # fst (subscribe (execObservable h c a d) onNext (onError m) onCompleted)"
    and "completion (buildHandler h m t) =
           Some (snd (subscribe (execObservable h c a d) onNext (onError m) onCompleted))"
  using assms
  by (simp_all add: buildHandler_def Let_def cmd_modeString
        subprocessCalls_append subprocessCalls_check installCalls_append)

text \<open>What a subprocess invocation in the trace tells about the call.\<close>

lemma exec_in_trace:
  assumes "Exec_execObservable c a d \<in> set (trace (buildHandler h m t))"
  shows "\<exists>folder info. selectWorkspaceFolder h = Some folder
           \<and> snd (checkAndInstallModule h ''beeware'' (uri folder))
           \<and> info = buildExecutionArgs h (pythonPath (getSettings h (uri folder)))
                      (beewarePath (getSettings h (uri folder)))
           \<and> c = command info \<and> a = args info @ [modeString m, t] \<and> d = fsPath (uri folder)"
proof (cases "selectWorkspaceFolder h")
  case None
  with assms show ?thesis by (simp add: buildHandler_no_folder)
next
  case (Some folder)
  show ?thesis
  proof (cases "snd (checkAndInstallModule h ''beeware'' (uri folder))")
    case False
    with assms Some have "(c, a, d) \<in> set (subprocessCalls (fst (checkAndInstallModule h ''beeware'' (uri folder))))"
      by (simp add: buildHandler_not_checked subprocessCalls_mem subprocessCalls_append)
    then show ?thesis by (simp add: subprocessCalls_check)
  next
    case True
    obtain pre where pre: "subprocessCalls pre = []"
      and tr: "trace (buildHandler h m t) =
             pre @ Exec_execObservable
                     (command (buildExecutionArgs h (pythonPath (getSettings h (uri folder)))
                        (beewarePath (getSettings h (uri folder)))))
                     (args (buildExecutionArgs h (pythonPath (getSettings h (uri folder)))
                        (beewarePath (getSettings h (uri folder)))) @ [modeString m, t])
                     (fsPath (uri folder))
                 # fst (subscribe (execObservable h 
                     (command (buildExecutionArgs h (pythonPath (getSettings h (uri folder)))
                        (beewarePath (getSettings h (uri folder)))))
                     (args (buildExecutionArgs h (pythonPath (getSettings h (uri folder)))
                        (beewarePath (getSettings h (uri folder)))) @ [modeString m, t])
                     (fsPath (uri folder))) onNext (onError m) onCompleted)"
      using buildHandler_checked(1)[OF Some True refl refl refl refl] by blast
    from assms have "(c, a, d) \<in> set (subprocessCalls (trace (buildHandler h m t)))"
      by (simp add: subprocessCalls_mem)
    then have "c = command (buildExecutionArgs h (pythonPath (getSettings h (uri folder)))
                        (beewarePath (getSettings h (uri folder))))
        \<and> a = args (buildExecutionArgs h (pythonPath (getSettings h (uri folder)))
                        (beewarePath (getSettings h (uri folder)))) @ [modeString m, t]
        \<and> d = fsPath (uri folder)"
      by (simp add: tr subprocessCalls_append pre subprocessCalls_subscribe)
    with Some True show ?thesis by simp
  qed
qed

lemma exec_in_trace_shape:
  assumes "Exec_execObservable c a d \<in> set (trace (buildHandler h m t))"
  shows "subprocessCalls (trace (buildHandler h m t)) = [(c, a, d)]"
    and "afterExec (trace (buildHandler h m t)) =
           fst (subscribe (execObservable h c a d) onNext (onError m) onCompleted)"
    and "completion (buildHandler h m t) =
           Some (snd (subscribe (execObservable h c a d) onNext (onError m) onCompleted))"
proof -
  from exec_in_trace[OF assms] obtain folder info where
    f: "selectWorkspaceFolder h = Some folder"
    and ch: "snd (checkAndInstallModule h ''beeware'' (uri folder))"
    and i: "info = buildExecutionArgs h (pythonPath (getSettings h (uri folder)))
                      (beewarePath (getSettings h (uri folder)))"
    and c: "c = command info" and a: "a = args info @ [modeString m, t]" and d: "d = fsPath (uri folder)"
    by blast
  from buildHandler_checked(1)[OF f ch i c a d] obtain pre where
    pre: "subprocessCalls pre = []"
    and tr: "trace (buildHandler h m t) =
             pre @ Exec_execObservable c a d
                 # fst (subscribe (execObservable h c a d) onNext (onError m) onCompleted)"
    by blast
  show "subprocessCalls (trace (buildHandler h m t)) = [(c, a, d)]"
    by (simp add: tr subprocessCalls_append pre subprocessCalls_subscribe)
  show "afterExec (trace (buildHandler h m t)) =
           fst (subscribe (execObservable h c a d) onNext (onError m) onCompleted)"
    by (simp add: tr afterExec_append pre)
  show "completion (buildHandler h m t) =
           Some (snd (subscribe (execObservable h c a d) onNext (onError m) onCompleted))"
    by (rule buildHandler_checked(2)[OF f ch i c a d])
qed

lemma logSink_lines: "logSink (concat (map onNext xs)) = map out xs"
  by (induction xs) (simp_all add: onNext_def logSink_append)

lemma displayed_lines: "displayed (concat (map onNext xs)) = map out xs"
  by (induction xs) (simp_all add: onNext_def displayed_append)

lemma loggerEvents_lines:
  "loggerEvents (concat (map onNext xs)) =
     map (\<lambda>item. if source item = ''stderr'' then Logger_error (out item) None
                  else Logger_info (out item)) xs"
  by (induction xs) (simp_all add: onNext_def loggerEvents_def)

subsection \<open>The installer and the wording\<close>


lemma snd_installAndReport: "snd (installAndReport h n u t) = install h n u"
  by (simp add: installAndReport_def)






lemma withProgress_check:
  "Shell_withProgress options \<notin> set (fst (checkAndInstallModule h n u))"
  by (simp add: checkAndInstallModule_def installAndReport_def Let_def)

lemma failure_check:
  "Logger_error message (Some e) \<notin> set (fst (checkAndInstallModule h n u))"
  by (simp add: checkAndInstallModule_def installAndReport_def Let_def)

lemma withProgress_subscribe:
  "Shell_withProgress options \<notin> set (fst (subscribe obs onNext (onError m) onCompleted))"
  by (cases "ending obs") (auto simp: subscribe_def onNext_def onError_def onCompleted_def)

lemma failure_subscribe:
  "Logger_error message (Some e) \<in> set (fst (subscribe obs onNext (onError m) onCompleted))
     \<Longrightarrow> message = ''Build failed''"
  by (cases "ending obs")
     (auto simp: subscribe_def onNext_def onError_def onCompleted_def modeString_truthy
        split: if_splits)

lemma header_buildHandler:
  "take 2 (trace (buildHandler h m t))
     = [Logger_info (EOL h), Logger_info (''Build '' @ quote @ t @ quote)]"
  by (simp add: buildHandler_def Let_def modeString_truthy numeral_2_eq_2 split: option.splits)

lemma title_buildHandler:
  "Shell_withProgress options \<in> set (trace (buildHandler h m t))
     \<Longrightarrow> title options = ''Building '' @ ApplicationName h @ '' on '' @ t"
  by (auto simp: buildHandler_def Let_def modeString_truthy withProgress_check
        withProgress_subscribe split: option.splits if_splits)

lemma failure_buildHandler:
  "Logger_error message (Some e) \<in> set (trace (buildHandler h m t))
     \<Longrightarrow> message = ''Build failed''"
  by (auto simp: buildHandler_def Let_def failure_check
        split: option.splits if_splits dest: failure_subscribe)

lemma snd_check_iff:
  "snd (checkAndInstallModule h n u) \<longleftrightarrow>
     (isInstalled h n u \<or> showInformationMessage h (installPrompt n) [''Install'', ''Cancel''] = Some ''Install'')
     \<and> install h n u"
  by (simp add: checkAndInstallModule_def Let_def snd_installAndReport)

lemma modeString_case:
  "modeString m = (case m of Build \<Rightarrow> ''build'' | Run \<Rightarrow> ''run'')"
  by (cases m) simp_all

section \<open>The claims\<close>

text \<open>
  Claim C1. An invocation reaches the subprocess stage when a workspace folder is selected,
  the module is reported installed or the prompt is answered \<^verbatim>\<open>'Install'\<close>, and
  \<^verbatim>\<open>install\<close> returns true. Every such build or run invocation reads the settings of the
  selected folder and invokes the subprocess, once, with the command computed from the
  interpreter path and the toolchain path of those settings, and with the computed argument
  list followed by the literal \<^verbatim>\<open>'build'\<close> (build) or \<^verbatim>\<open>'run'\<close> (run) and then the
  target, in the folder's directory.
\<close>

theorem C1_stage_invokes_subprocess:
  assumes "selectWorkspaceFolder h = Some folder"
    and "isInstalled h ''beeware'' (uri folder)
         \<or> showInformationMessage h (installPrompt ''beeware'') [''Install'', ''Cancel'']
              = Some ''Install''"
    and "install h ''beeware'' (uri folder)"
  shows "subprocessCalls (trace (buildHandler h buildOrRun target))
           = [(command (buildExecutionArgs h (pythonPath (getSettings h (uri folder)))
                         (beewarePath (getSettings h (uri folder)))),
               args (buildExecutionArgs h (pythonPath (getSettings h (uri folder)))
                      (beewarePath (getSettings h (uri folder))))
                 @ [case buildOrRun of Build \<Rightarrow> ''build'' | Run \<Rightarrow> ''run'', target],
               fsPath (uri folder))]
       \<and> Config_getSettings (uri folder) \<in> set (trace (buildHandler h buildOrRun target))"
proof -
  from assms(2,3) have ch: "snd (checkAndInstallModule h ''beeware'' (uri folder))"
    by (simp add: snd_check_iff)
  from buildHandler_checked(1)[OF assms(1) ch refl refl refl refl, of buildOrRun target]
  show ?thesis
    by (auto simp: subprocessCalls_append subprocessCalls_subscribe modeString_case)
qed

theorem C1_stage_invokes_subprocess_witness:
  "selectWorkspaceFolder (sampleHost False (Some ''Install'') True goodRun) = Some sampleFolder
   \<and> showInformationMessage (sampleHost False (Some ''Install'') True goodRun)
         (installPrompt ''beeware'') [''Install'', ''Cancel''] = Some ''Install''
   \<and> install (sampleHost False (Some ''Install'') True goodRun) ''beeware'' (uri sampleFolder)
   \<and> subprocessCalls (trace (buildHandler (sampleHost False (Some ''Install'') True goodRun) Build ''ios''))
       = [(''python3'', [''-m'', ''briefcase'', ''build'', ''ios''], ''/work/app'')]
   \<and> subprocessCalls (trace (buildHandler (sampleHost False (Some ''Install'') True goodRun) Run ''ios''))
       = [(''python3'', [''-m'', ''briefcase'', ''run'', ''ios''], ''/work/app'')]
   \<and> Config_getSettings (uri sampleFolder)
       \<in> set (trace (buildHandler (sampleHost False (Some ''Install'') True goodRun) Run ''ios''))"
proof -
  have f: "selectWorkspaceFolder (sampleHost False (Some ''Install'') True goodRun) = Some sampleFolder"
    and a: "showInformationMessage (sampleHost False (Some ''Install'') True goodRun)
         (installPrompt ''beeware'') [''Install'', ''Cancel''] = Some ''Install''"
    and i: "install (sampleHost False (Some ''Install'') True goodRun) ''beeware'' (uri sampleFolder)"
    by (simp_all add: sampleHost_def)
  have computed: "buildExecutionArgs (sampleHost False (Some ''Install'') True goodRun)
           (pythonPath (getSettings (sampleHost False (Some ''Install'') True goodRun) (uri sampleFolder)))
           (beewarePath (getSettings (sampleHost False (Some ''Install'') True goodRun) (uri sampleFolder)))
         = \<lparr>command = ''python3'', args = [''-m'', ''briefcase'']\<rparr>"
    and cwd: "fsPath (uri sampleFolder) = ''/work/app''"
    by (simp_all add: sampleHost_def sampleFolder_def)
  from C1_stage_invokes_subprocess[OF f disjI2[OF a] i, of Build "''ios''"]
       C1_stage_invokes_subprocess[OF f disjI2[OF a] i, of Run "''ios''"]
       f a i
  show ?thesis by (simp add: computed cwd)
qed

text \<open>
  Claim C2. When the workspace folder selection yields no folder, the handler makes no
  subprocess invocation, creates no completion promise, records no entry of error
  severity, and its promise resolves; the same holds of the public \<open>build\<close> and \<open>run\<close>.
\<close>

theorem C2_no_folder_no_subprocess:
  assumes "selectWorkspaceFolder h = None"
  shows "subprocessCalls (trace (buildHandler h buildOrRun target)) = []
       \<and> completion (buildHandler h buildOrRun target) = None
       \<and> errorEntries (trace (buildHandler h buildOrRun target)) = []
       \<and> returned (buildHandler h buildOrRun target) = Resolved
       \<and> subprocessCalls (effects (build h target)) = [] \<and> promise (build h target) = Resolved
       \<and> subprocessCalls (effects (run h target)) = [] \<and> promise (run h target) = Resolved"
  using assms by (simp add: buildHandler_no_folder build_def run_def)

theorem C2_no_folder_no_subprocess_witness:
  "selectWorkspaceFolder noFolderHost = None
   \<and> subprocessCalls (trace (buildHandler noFolderHost Build ''ios'')) = []
   \<and> errorEntries (trace (buildHandler noFolderHost Build ''ios'')) = []
   \<and> returned (buildHandler noFolderHost Build ''ios'') = Resolved
   \<and> promise (run noFolderHost ''ios'') = Resolved"
proof -
  have none: "selectWorkspaceFolder noFolderHost = None"
    by (simp add: noFolderHost_def)
  from C2_no_folder_no_subprocess[OF none, of Build "''ios''"]
       C2_no_folder_no_subprocess[OF none, of Run "''ios''"] none
  show ?thesis by simp
qed

text \<open>
  Claim C3. When the installer reports the module \<^verbatim>\<open>'beeware'\<close> as not installed for the
  selected folder and the answer to the install prompt is anything but \<^verbatim>\<open>'Install'\<close>
  (another button, or no answer), the handler makes no subprocess invocation.
\<close>

theorem C3_declined_install_no_subprocess:
  assumes "selectWorkspaceFolder h = Some folder"
    and "\<not> isInstalled h ''beeware'' (uri folder)"
    and "showInformationMessage h (installPrompt ''beeware'') [''Install'', ''Cancel'']
           \<noteq> Some ''Install''"
  shows "subprocessCalls (trace (buildHandler h buildOrRun target)) = []
       \<and> completion (buildHandler h buildOrRun target) = None"
proof -
  from assms(2,3) have no: "\<not> snd (checkAndInstallModule h ''beeware'' (uri folder))"
    by (simp add: checkAndInstallModule_def Let_def)
  show ?thesis
    by (simp add: buildHandler_not_checked[OF assms(1) no] subprocessCalls_append
          subprocessCalls_check)
qed

theorem C3_declined_install_no_subprocess_witness:
  "selectWorkspaceFolder (sampleHost False (Some ''Cancel'') True goodRun) = Some sampleFolder
   \<and> \<not> isInstalled (sampleHost False (Some ''Cancel'') True goodRun) ''beeware'' (uri sampleFolder)
   \<and> showInformationMessage (sampleHost False (Some ''Cancel'') True goodRun)
         (installPrompt ''beeware'') [''Install'', ''Cancel''] \<noteq> Some ''Install''
   \<and> subprocessCalls (trace (buildHandler (sampleHost False (Some ''Cancel'') True goodRun) Run ''ios'')) = []"
proof -
  have a: "selectWorkspaceFolder (sampleHost False (Some ''Cancel'') True goodRun) = Some sampleFolder"
    and b: "\<not> isInstalled (sampleHost False (Some ''Cancel'') True goodRun) ''beeware'' (uri sampleFolder)"
    and c: "showInformationMessage (sampleHost False (Some ''Cancel'') True goodRun)
         (installPrompt ''beeware'') [''Install'', ''Cancel''] \<noteq> Some ''Install''"
    by (simp_all add: sampleHost_def)
  from C3_declined_install_no_subprocess[OF a b c, of Run "''ios''"] a b c
  show ?thesis by simp
qed

text \<open>
  Claim C4. When the stream of the subprocess run ends with the completion notification,
  the completion promise given to the progress shell resolves, and the texts of the log
  entries made after the invocation are the \<^verbatim>\<open>out\<close> fields of the items of the stream, in
  the order of the stream.
\<close>

theorem C4_success_resolves_and_logs_in_order:
  assumes "Exec_execObservable c a d \<in> set (trace (buildHandler h buildOrRun target))"
    and "ending (execObservable h c a d) = Completed"
  shows "completion (buildHandler h buildOrRun target) = Some Resolved
       \<and> logSink (afterExec (trace (buildHandler h buildOrRun target)))
           = map out (items (execObservable h c a d))"
  using assms(2)
  by (simp add: exec_in_trace_shape[OF assms(1)] subscribe_def onCompleted_def logSink_lines)

theorem C4_success_resolves_and_logs_in_order_witness:
  "Exec_execObservable ''python3'' [''-m'', ''briefcase'', ''build'', ''ios''] ''/work/app''
     \<in> set (trace (buildHandler (sampleHost True None True goodRun) Build ''ios''))
   \<and> ending (execObservable (sampleHost True None True goodRun)
               ''python3'' [''-m'', ''briefcase'', ''build'', ''ios''] ''/work/app'') = Completed
   \<and> completion (buildHandler (sampleHost True None True goodRun) Build ''ios'') = Some Resolved
   \<and> logSink (afterExec (trace (buildHandler (sampleHost True None True goodRun) Build ''ios'')))
       = [''compiling'', ''warning: x'', ''done'']"
proof -
  have reached: "Exec_execObservable ''python3'' [''-m'', ''briefcase'', ''build'', ''ios''] ''/work/app''
     \<in> set (trace (buildHandler (sampleHost True None True goodRun) Build ''ios''))"
    by (simp add: sample_defs)
  have ended: "ending (execObservable (sampleHost True None True goodRun)
               ''python3'' [''-m'', ''briefcase'', ''build'', ''ios''] ''/work/app'') = Completed"
    by (simp add: sampleHost_def goodRun_def)
  have lines: "map out (items (execObservable (sampleHost True None True goodRun)
               ''python3'' [''-m'', ''briefcase'', ''build'', ''ios''] ''/work/app''))
       = [''compiling'', ''warning: x'', ''done'']"
    by (simp add: sampleHost_def goodRun_def sampleLines_def)
  from C4_success_resolves_and_logs_in_order[OF reached ended] reached ended lines
  show ?thesis by simp
qed

text \<open>
  Claim C5. When the stream of the subprocess run ends with the error \<open>e\<close>, the
  completion promise given to the progress shell rejects with \<open>e\<close>, and the entries of
  error severity made after the invocation end with the failure entry that carries
  \<open>e\<close>.
\<close>

theorem C5_stream_error_rejects_and_logs:
  assumes "Exec_execObservable c a d \<in> set (trace (buildHandler h buildOrRun target))"
    and "ending (execObservable h c a d) = Errored e"
  shows "completion (buildHandler h buildOrRun target) = Some (Rejected e)
       \<and> errorEntries (afterExec (trace (buildHandler h buildOrRun target)))
           = errorEntries (concat (map onNext (items (execObservable h c a d))))
             @ [(''Build failed'', Some e)]"
  using assms(2)
  by (simp add: exec_in_trace_shape[OF assms(1)] subscribe_def onError_def errorEntries_append
        modeString_truthy)

theorem C5_stream_error_rejects_and_logs_witness:
  "Exec_execObservable ''python3'' [''-m'', ''briefcase'', ''run'', ''ios''] ''/work/app''
     \<in> set (trace (buildHandler (sampleHost True None True failedRun) Run ''ios''))
   \<and> ending (execObservable (sampleHost True None True failedRun)
               ''python3'' [''-m'', ''briefcase'', ''run'', ''ios''] ''/work/app'')
       = Errored (ProcError ''exit code 1'')
   \<and> completion (buildHandler (sampleHost True None True failedRun) Run ''ios'')
       = Some (Rejected (ProcError ''exit code 1''))
   \<and> errorEntries (afterExec (trace (buildHandler (sampleHost True None True failedRun) Run ''ios'')))
       = [(''warning: x'', None), (''Build failed'', Some (ProcError ''exit code 1''))]"
proof -
  have reached: "Exec_execObservable ''python3'' [''-m'', ''briefcase'', ''run'', ''ios''] ''/work/app''
     \<in> set (trace (buildHandler (sampleHost True None True failedRun) Run ''ios''))"
    by (simp add: sample_defs)
  have ended: "ending (execObservable (sampleHost True None True failedRun)
               ''python3'' [''-m'', ''briefcase'', ''run'', ''ios''] ''/work/app'')
       = Errored (ProcError ''exit code 1'')"
    by (simp add: sampleHost_def failedRun_def)
  have lines: "errorEntries (concat (map onNext (items (execObservable (sampleHost True None True failedRun)
               ''python3'' [''-m'', ''briefcase'', ''run'', ''ios''] ''/work/app''))))
       = [(''warning: x'', None)]"
    by (simp add: sampleHost_def failedRun_def sampleLines_def onNext_def)
  from C5_stream_error_rejects_and_logs[OF reached ended] reached ended lines
  show ?thesis by simp
qed

text \<open>
  Claim C6. The log entries made for the items of the stream are, item by item, an entry
  of error severity when the item's source is \<^verbatim>\<open>'stderr'\<close> and an entry of informational
  severity otherwise, each with the item's text.
\<close>

theorem C6_severity_by_source:
  assumes "Exec_execObservable c a d \<in> set (trace (buildHandler h buildOrRun target))"
  shows "take (length (items (execObservable h c a d)))
           (loggerEvents (afterExec (trace (buildHandler h buildOrRun target))))
         = map (\<lambda>item. if source item = ''stderr'' then Logger_error (out item) None
                        else Logger_info (out item))
             (items (execObservable h c a d))"
proof -
  have "loggerEvents (afterExec (trace (buildHandler h buildOrRun target)))
          = loggerEvents (concat (map onNext (items (execObservable h c a d))))
            @ loggerEvents (case ending (execObservable h c a d) of
                              Completed \<Rightarrow> [] | Errored e \<Rightarrow> fst (onError buildOrRun e) | StillOpen \<Rightarrow> [])"
    by (cases "ending (execObservable h c a d)")
       (simp_all add: exec_in_trace_shape[OF assms] subscribe_def onCompleted_def loggerEvents_def)
  then show ?thesis
    by (simp add: loggerEvents_lines)
qed

theorem C6_severity_by_source_witness:
  "Exec_execObservable ''python3'' [''-m'', ''briefcase'', ''build'', ''ios''] ''/work/app''
     \<in> set (trace (buildHandler (sampleHost True None True failedRun) Build ''ios''))
   \<and> take 3 (loggerEvents (afterExec (trace (buildHandler (sampleHost True None True failedRun) Build ''ios''))))
       = [Logger_info ''compiling'', Logger_error ''warning: x'' None, Logger_info ''done'']"
proof -
  have reached: "Exec_execObservable ''python3'' [''-m'', ''briefcase'', ''build'', ''ios''] ''/work/app''
     \<in> set (trace (buildHandler (sampleHost True None True failedRun) Build ''ios''))"
    by (simp add: sample_defs)
  have lines: "items (execObservable (sampleHost True None True failedRun)
               ''python3'' [''-m'', ''briefcase'', ''build'', ''ios''] ''/work/app'')
       = sampleLines"
    by (simp add: sampleHost_def failedRun_def)
  from C6_severity_by_source[OF reached] reached
  show ?thesis by (simp add: lines sampleLines_def numeral_3_eq_3)
qed

text \<open>
  Claim C7 as stated asks that the promise of \<open>build\<close> or \<open>run\<close> rejects when the
  subprocess errors. It does not: on a run whose stream ends with an error the promise of
  \<open>build\<close> is not the rejected one.
\<close>

theorem C7_counterexample:
  "Exec_execObservable ''python3'' [''-m'', ''briefcase'', ''build'', ''ios''] ''/work/app''
     \<in> set (effects (build (sampleHost True None True failedRun) ''ios''))
   \<and> ending (execObservable (sampleHost True None True failedRun)
               ''python3'' [''-m'', ''briefcase'', ''build'', ''ios''] ''/work/app'')
       = Errored (ProcError ''exit code 1'')
   \<and> promise (build (sampleHost True None True failedRun) ''ios'')
       \<noteq> Rejected (ProcError ''exit code 1'')"
  by (simp add: sample_defs)

text \<open>
  Claim C7, amended. When the stream of the subprocess run ends with the error \<open>e\<close>, the
  failure is logged (the last event of the trace is the failure entry of error severity
  that carries \<open>e\<close>), the completion promise given to the progress shell rejects with
  \<open>e\<close> and the subprocess is invoked exactly once; the handler's own promise, and the
  promises of \<open>build\<close> and \<open>run\<close>, which do not wait for the handler, resolve.
\<close>

theorem C7_error_not_propagated_not_retried:
  assumes "Exec_execObservable c a d \<in> set (trace (buildHandler h buildOrRun target))"
    and "ending (execObservable h c a d) = Errored e"
  shows "completion (buildHandler h buildOrRun target) = Some (Rejected e)
       \<and> last (trace (buildHandler h buildOrRun target)) = Logger_error ''Build failed'' (Some e)
       \<and> errorEntries (afterExec (trace (buildHandler h buildOrRun target)))
           = errorEntries (concat (map onNext (items (execObservable h c a d))))
             @ [(''Build failed'', Some e)]
       \<and> subprocessCalls (trace (buildHandler h buildOrRun target)) = [(c, a, d)]
       \<and> returned (buildHandler h buildOrRun target) = Resolved
       \<and> effects (build h target) = trace (buildHandler h Build target)
       \<and> promise (build h target) = Resolved
       \<and> effects (run h target) = trace (buildHandler h Run target)
       \<and> promise (run h target) = Resolved"
proof -
  have ret: "returned (buildHandler h buildOrRun target) = Resolved"
    by (simp add: buildHandler_def Let_def split: option.splits)
  have sub: "fst (subscribe (execObservable h c a d) onNext (onError buildOrRun) onCompleted)
               = concat (map onNext (items (execObservable h c a d)))
                 @ [Logger_error ''Build failed'' (Some e)]"
    using assms(2) by (simp add: subscribe_def onError_def modeString_truthy)
  from exec_in_trace[OF assms(1)] obtain folder info where
    f: "selectWorkspaceFolder h = Some folder"
    and ch: "snd (checkAndInstallModule h ''beeware'' (uri folder))"
    and i: "info = buildExecutionArgs h (pythonPath (getSettings h (uri folder)))
                      (beewarePath (getSettings h (uri folder)))"
    and c: "c = command info" and a: "a = args info @ [modeString buildOrRun, target]"
    and d: "d = fsPath (uri folder)"
    by blast
  from buildHandler_checked(1)[OF f ch i c a d] obtain pre where
    tr: "trace (buildHandler h buildOrRun target) =
             pre @ Exec_execObservable c a d
                 # fst (subscribe (execObservable h c a d) onNext (onError buildOrRun) onCompleted)"
    by blast
  have lst: "last (trace (buildHandler h buildOrRun target)) = Logger_error ''Build failed'' (Some e)"
    by (simp add: tr sub)
  have errs: "errorEntries (afterExec (trace (buildHandler h buildOrRun target)))
           = errorEntries (concat (map onNext (items (execObservable h c a d))))
             @ [(''Build failed'', Some e)]"
    by (simp add: exec_in_trace_shape(2)[OF assms(1)] sub errorEntries_append)
  from assms(2) ret lst errs show ?thesis
    by (simp add: exec_in_trace_shape(1,3)[OF assms(1)] subscribe_def onError_def build_def run_def)
qed

theorem C7_error_not_propagated_not_retried_witness:
  "Exec_execObservable ''python3'' [''-m'', ''briefcase'', ''build'', ''ios''] ''/work/app''
     \<in> set (trace (buildHandler (sampleHost True None True failedRun) Build ''ios''))
   \<and> ending (execObservable (sampleHost True None True failedRun)
               ''python3'' [''-m'', ''briefcase'', ''build'', ''ios''] ''/work/app'')
       = Errored (ProcError ''exit code 1'')
   \<and> completion (buildHandler (sampleHost True None True failedRun) Build ''ios'')
       = Some (Rejected (ProcError ''exit code 1''))
   \<and> last (effects (build (sampleHost True None True failedRun) ''ios''))
       = Logger_error ''Build failed'' (Some (ProcError ''exit code 1''))
   \<and> subprocessCalls (effects (build (sampleHost True None True failedRun) ''ios''))
       = [(''python3'', [''-m'', ''briefcase'', ''build'', ''ios''], ''/work/app'')]
   \<and> promise (build (sampleHost True None True failedRun) ''ios'') = Resolved"
proof -
  have reached: "Exec_execObservable ''python3'' [''-m'', ''briefcase'', ''build'', ''ios''] ''/work/app''
     \<in> set (trace (buildHandler (sampleHost True None True failedRun) Build ''ios''))"
    by (simp add: sample_defs)
  have ended: "ending (execObservable (sampleHost True None True failedRun)
               ''python3'' [''-m'', ''briefcase'', ''build'', ''ios''] ''/work/app'')
       = Errored (ProcError ''exit code 1'')"
    by (simp add: sampleHost_def failedRun_def)
  from C7_error_not_propagated_not_retried[OF reached ended] reached ended
  show ?thesis by simp
qed

text \<open>
  Claim C8. Every item of the stream is appended to the output channel and logged: the
  texts appended after the invocation are those of all the items in order, whatever their
  source, and so are the texts of the first log entries, one for each item.
\<close>

theorem C8_every_line_logged_and_displayed:
  assumes "Exec_execObservable c a d \<in> set (trace (buildHandler h buildOrRun target))"
  shows "displayed (afterExec (trace (buildHandler h buildOrRun target)))
           = map out (items (execObservable h c a d))
       \<and> take (length (items (execObservable h c a d)))
            (logSink (afterExec (trace (buildHandler h buildOrRun target))))
           = map out (items (execObservable h c a d))"
  by (cases "ending (execObservable h c a d)")
     (simp_all add: exec_in_trace_shape[OF assms] subscribe_def onCompleted_def onError_def
        displayed_append displayed_lines logSink_append logSink_lines)

theorem C8_every_line_logged_and_displayed_witness:
  "Exec_execObservable ''python3'' [''-m'', ''briefcase'', ''run'', ''android''] ''/work/app''
     \<in> set (trace (buildHandler (sampleHost False (Some ''Install'') True failedRun) Run ''android''))
   \<and> displayed (afterExec (trace (buildHandler (sampleHost False (Some ''Install'') True failedRun) Run ''android'')))
       = [''compiling'', ''warning: x'', ''done'']
   \<and> take 3 (logSink (afterExec (trace (buildHandler (sampleHost False (Some ''Install'') True failedRun) Run ''android''))))
       = [''compiling'', ''warning: x'', ''done'']"
proof -
  have reached: "Exec_execObservable ''python3'' [''-m'', ''briefcase'', ''run'', ''android''] ''/work/app''
     \<in> set (trace (buildHandler (sampleHost False (Some ''Install'') True failedRun) Run ''android''))"
    by (simp add: sample_defs)
  have lines: "items (execObservable (sampleHost False (Some ''Install'') True failedRun)
               ''python3'' [''-m'', ''briefcase'', ''run'', ''android''] ''/work/app'')
       = sampleLines"
    by (simp add: sampleHost_def failedRun_def)
  from C8_every_line_logged_and_displayed[OF reached] reached
  show ?thesis by (simp add: lines sampleLines_def numeral_3_eq_3)
qed

text \<open>
  Claim C9. In both modes the mode string is a true condition, so the header logged first
  is the \<^verbatim>\<open>Build\<close> one, the title of every progress notification is the \<^verbatim>\<open>Building\<close>
  one and the message of every failure entry is \<^verbatim>\<open>Build failed\<close>; the \<^verbatim>\<open>Run\<close>,
  \<^verbatim>\<open>Running\<close> and \<^verbatim>\<open>Run failed\<close> wordings do not occur in these places.
\<close>

theorem C9_build_wording_in_both_modes:
  "truthy (modeString buildOrRun)
   \<and> take 2 (trace (buildHandler h buildOrRun target))
       = [Logger_info (EOL h), Logger_info (''Build '' @ quote @ target @ quote)]
   \<and> (\<forall>options. Shell_withProgress options \<in> set (trace (buildHandler h buildOrRun target))
         \<longrightarrow> title options = ''Building '' @ ApplicationName h @ '' on '' @ target)
   \<and> (\<forall>message e. Logger_error message (Some e) \<in> set (trace (buildHandler h buildOrRun target))
         \<longrightarrow> message = ''Build failed'')
   \<and> take 2 (trace (buildHandler h buildOrRun target))
       \<noteq> [Logger_info (EOL h), Logger_info (''Run '' @ quote @ target @ quote)]
   \<and> (\<forall>options. Shell_withProgress options \<in> set (trace (buildHandler h buildOrRun target))
         \<longrightarrow> title options \<noteq> ''Running '' @ ApplicationName h @ '' on '' @ target)
   \<and> (\<forall>e. Logger_error ''Run failed'' (Some e) \<notin> set (trace (buildHandler h buildOrRun target)))"
proof (intro conjI allI impI)
  show "truthy (modeString buildOrRun)" by (rule modeString_truthy)
  show "take 2 (trace (buildHandler h buildOrRun target))
       = [Logger_info (EOL h), Logger_info (''Build '' @ quote @ target @ quote)]"
    by (rule header_buildHandler)
  show "take 2 (trace (buildHandler h buildOrRun target))
       \<noteq> [Logger_info (EOL h), Logger_info (''Run '' @ quote @ target @ quote)]"
    by (simp add: header_buildHandler)
next
  fix options
  assume "Shell_withProgress options \<in> set (trace (buildHandler h buildOrRun target))"
  then have t: "title options = ''Building '' @ ApplicationName h @ '' on '' @ target"
    by (rule title_buildHandler)
  show "title options = ''Building '' @ ApplicationName h @ '' on '' @ target" by (rule t)
  show "title options \<noteq> ''Running '' @ ApplicationName h @ '' on '' @ target" by (simp add: t)
next
  fix message e
  assume "Logger_error message (Some e) \<in> set (trace (buildHandler h buildOrRun target))"
  then show "message = ''Build failed''" by (rule failure_buildHandler)
next
  fix e
  show "Logger_error ''Run failed'' (Some e) \<notin> set (trace (buildHandler h buildOrRun target))"
    using failure_buildHandler[of "''Run failed''" e h buildOrRun target] by auto
qed

theorem C9_build_wording_in_both_modes_witness:
  "take 2 (trace (buildHandler (sampleHost True None True failedRun) Run ''ios''))
     = [Logger_info [CHR 0x0A], Logger_info (''Build '' @ quote @ ''ios'' @ quote)]
   \<and> Shell_withProgress \<lparr>location = Notification, title = ''Building BeeWare on ios'', cancellable = True\<rparr>
       \<in> set (trace (buildHandler (sampleHost True None True failedRun) Run ''ios''))
   \<and> Logger_error ''Build failed'' (Some (ProcError ''exit code 1''))
       \<in> set (trace (buildHandler (sampleHost True None True failedRun) Run ''ios''))
   \<and> Logger_error ''Run failed'' (Some (ProcError ''exit code 1''))
       \<notin> set (trace (buildHandler (sampleHost True None True failedRun) Run ''ios''))"
proof -
  have shown: "Shell_withProgress \<lparr>location = Notification, title = ''Building BeeWare on ios'', cancellable = True\<rparr>
       \<in> set (trace (buildHandler (sampleHost True None True failedRun) Run ''ios''))"
    and failed: "Logger_error ''Build failed'' (Some (ProcError ''exit code 1''))
       \<in> set (trace (buildHandler (sampleHost True None True failedRun) Run ''ios''))"
    by (simp_all add: sample_defs)
  have eol: "EOL (sampleHost True None True failedRun) = [CHR 0x0A]"
    by (simp add: sampleHost_def)
  from C9_build_wording_in_both_modes[of Run "sampleHost True None True failedRun" "''ios''"]
    shown failed eol
  show ?thesis by simp
qed




end
